theory Spec2Isabelle
  imports Complex_Main
begin

section \<open>JavaScript values used by the application\<close>

text \<open>
  The viewer (\<^verbatim>\<open>src/application.js\<close>, class \<^verbatim>\<open>LodeApp\<close>) is a controller: it owns a
  few fields (\<^verbatim>\<open>config\<close>, \<^verbatim>\<open>current\<close>, \<^verbatim>\<open>map\<close>, \<^verbatim>\<open>group\<close>, \<^verbatim>\<open>menu\<close>, \<^verbatim>\<open>table\<close>), reads
  and writes the persisted \<^verbatim>\<open>Store\<close>, and calls into collaborators (the map engine, the
  controls, the network). The model keeps the fields and the store as a record and
  writes every call on a collaborator, in program order, to the list \<open>calls\<close>.
\<close>

datatype jsval = JUndefined | JStr string | JNum rat

text \<open>An array literal such as \<^verbatim>\<open>["==", ["get", field], id]\<close>.\<close>

datatype jsexpr = Lit jsval | Arr "jsexpr list"

type_synonym lnglat = "jsval \<times> jsval"
type_synonym extent = "lnglat \<times> lnglat"
type_synonym dataset = "jsval list list"

text \<open>Reading \<^verbatim>\<open>a[k]\<close> on an array: \<^verbatim>\<open>undefined\<close> past the end.\<close>

definition js_index :: "jsval list \<Rightarrow> nat \<Rightarrow> jsval" where
  "js_index a k = (if k < length a then a ! k else JUndefined)"

text \<open>Truthiness of a property that holds a string or is missing.\<close>

definition truthy :: "string option \<Rightarrow> bool" where
  "truthy v = (case v of None \<Rightarrow> False | Some s \<Rightarrow> s \<noteq> [])"

section \<open>Configuration\<close>

record source_data =
  sd_type :: string
  sd_cluster :: bool

record data_source =
  ds_name :: "string option"
  ds_data :: "source_data option"

record layer =
  layer_id :: string
  layer_source :: "string option"

text \<open>
  One entry of a legend's \<^verbatim>\<open>config\<close> list: a colour and, except for the fallback entry,
  the expression that selects its features.
\<close>

record legend_item =
  li_color :: "rat list"
  li_value :: "jsexpr option"

text \<open>
  A map definition, read through the getters the application uses
  (\<^verbatim>\<open>Style\<close>, \<^verbatim>\<open>DataSources\<close>, \<^verbatim>\<open>Layers\<close>, \<^verbatim>\<open>Legend\<close>, \<^verbatim>\<open>FullTitle\<close>, \<^verbatim>\<open>Subtitle\<close>, \<^verbatim>\<open>TableUrl\<close>,
  \<^verbatim>\<open>LayerIDs\<close>, \<^verbatim>\<open>ClickableLayersIDs\<close>, \<^verbatim>\<open>Fields\<close>, \<^verbatim>\<open>Table\<close>). \<open>TableData\<close> stands for
  \<^verbatim>\<open>Table\<close>: the dataset last handed to \<^verbatim>\<open>UpdateTable\<close>.
\<close>

record map_def =
  Style :: string
  DataSources :: "data_source list option"
  Layers :: "layer list option"
  Legend :: "legend_item list"
  FullTitle :: string
  Subtitle :: string
  TableUrl :: string
  LayerIDs :: "string list"
  ClickableLayersIDs :: "string list"
  Fields :: "string list"
  TableData :: "dataset option"

record search_item =
  item_id :: jsval
  item_name :: jsval
  item_label :: string
  item_extent :: extent

text \<open>
  \<^verbatim>\<open>config.search.items\<close> holds raw rows when the configuration is loaded and the derived
  objects after \<^verbatim>\<open>AddSearch\<close> has overwritten it.
\<close>

datatype search_entry = Row "jsval list" | Item search_item

record search_config =
  search_items :: "search_entry list"
  search_color :: "rat list"
  search_field :: string
  search_layer :: string

record mapbox_credentials =
  accessToken :: "string option"

record credentials_config =
  mapbox :: "mapbox_credentials option"

record bookmark =
  bm_label :: string
  bm_extent :: extent

text \<open>
  \<open>cfg_maps\<close> is \<^verbatim>\<open>config.maps\<close>, an object keyed by map id, as the list of its own
  properties in enumeration order.
\<close>

record config =
  cfg_credentials :: "credentials_config option"
  cfg_maps :: "(string \<times> map_def) list"
  cfg_search :: search_config
  cfg_bookmarks :: "bookmark list"

section \<open>Persisted store, controls and events\<close>

record store =
  Store_Map :: string
  Store_Lat :: rat
  Store_Lng :: rat
  Store_Zoom :: rat
  Store_Opacity :: rat

text \<open>The live map: the view the engine currently shows (\<^verbatim>\<open>map.Center\<close>, \<^verbatim>\<open>map.Zoom\<close>).\<close>

record map_handle =
  Center_lat :: rat
  Center_lng :: rat
  Zoom :: rat

text \<open>
  The legend control: what it was built or reloaded from, and its own toggle state,
  which the control changes before it raises \<^verbatim>\<open>LegendChange\<close>. What it is built from is
  read from getters of \<^verbatim>\<open>this.current\<close> and is \<^verbatim>\<open>undefined\<close> (\<open>None\<close>) when the object
  that \<^verbatim>\<open>this.current\<close> holds has no such getter.
\<close>

record legend_control =
  lc_legend :: "legend_item list option"
  lc_title :: "string option"
  lc_subtitle :: "string option"
  lc_state :: "bool list"

record opacity_control =
  oc_opacity :: rat
  oc_title :: string
  oc_label :: string

record group_controls =
  legend :: legend_control
  opacity :: opacity_control

datatype menu_button = Button string | PopupButton string

datatype table_widget = Table "dataset option"

text \<open>
  The second argument of \<^verbatim>\<open>ApplyLegendStylesToMapLayers\<close>: the legend control, or the
  object literal \<^verbatim>\<open>{config: [...]}\<close> that the search handler builds.
\<close>

datatype legend_arg = LegendControl legend_control | LegendLiteral "legend_item list"

record fit_options =
  fo_padding :: "nat option"
  fo_animate :: "bool option"

record feature =
  properties :: "(string \<times> jsval) list"

record click_event =
  ce_point :: "rat \<times> rat"
  ce_lngLat :: "rat \<times> rat"

record map_selected_event =
  ms_id :: string
  ms_map :: map_def

datatype error = TypeError | Thrown string

text \<open>
  Calls on collaborators, as \<open>calls\<close> records them. An argument read from a getter of
  \<^verbatim>\<open>this.current\<close> may be \<^verbatim>\<open>undefined\<close> (\<open>None\<close>).
\<close>

datatype effect =
    Factory_Map string "string option" "rat \<times> rat" rat
  | SetMaxBounds "(rat \<times> rat) \<times> (rat \<times> rat)"
  | Map_On string
  | Console_error error
  | AddSource string source_data
  | AddClusters string
  | AddLayer layer
  | AddControl string "string option"
  | Factory_SearchControl "search_entry list" string string
  | Search_Place string
  | Search_On string
  | Search_input_id string
  | Legend_On string
  | Opacity_On string
  | Menu_AddButton string string string
  | Menu_AddPopupButton string string string
  | MapsList_On string
  | Bookmarks_On string
  | Dom_Empty string
  | Net_JSON string
  | Map_UpdateTable dataset
  | New_Table "dataset option"
  | Message_setAttribute string string
  | UpdateMapLayersWithLegendState "string list option" legend_control rat
  | ApplyLegendStylesToMapLayers "string list option" legend_arg
  | FitBounds extent "fit_options option"
  | Popup_Hide string
  | SetStyle "string option"
  | Legend_Reload "legend_item list option" "string option" "string option"
  | SetClickableMap
  | QueryRenderedFeatures "rat \<times> rat" "string list option"
  | InfoPopup "rat \<times> rat" string
  | Table_UpdateTable search_item
  | Help_click
  | Store_set string jsval

text \<open>
  What the component library, the engine and the runtime decide: localisation, the
  base path, number formatting, the legend control's initial toggle state, the
  workaround for field values, the popup formatter and the engine's hit test.
\<close>

record collaborators =
  Nls :: "string \<Rightarrow> string"
  Core_root :: string
  Number_toString :: "rat \<Rightarrow> string"
  Legend_initial_state :: "legend_item list option \<Rightarrow> bool list"
  Legend_reloaded_state :: "legend_control \<Rightarrow> legend_item list option \<Rightarrow> bool list"
  FixField :: "string \<Rightarrow> jsval \<Rightarrow> jsval"
  HTMLize :: "(string \<times> jsval) list \<Rightarrow> string list option \<Rightarrow> string \<Rightarrow> string"
  Rendered :: "rat \<times> rat \<Rightarrow> string list option \<Rightarrow> feature list"

section \<open>The application object\<close>

text \<open>
  What \<^verbatim>\<open>this.current\<close> can hold. \<^verbatim>\<open>config.maps\<close> is a plain object, so the property
  read \<^verbatim>\<open>this.config.maps[Store.Map]\<close> finds the catalog's own properties, which are map
  definitions, and failing that the members every plain object inherits from
  \<^verbatim>\<open>Object.prototype\<close>, which are functions (for \<^verbatim>\<open>__proto__\<close>, the prototype
  object): objects without any of the getters of a map definition.
\<close>

datatype current_value = MapDefinition map_def | InheritedMember string

definition Object_prototype_members :: "string list" where
  "Object_prototype_members =
     [''constructor'', ''__defineGetter__'', ''__defineSetter__'', ''hasOwnProperty'',
      ''__lookupGetter__'', ''__lookupSetter__'', ''isPrototypeOf'', ''propertyIsEnumerable'',
      ''toString'', ''valueOf'', ''__proto__'', ''toLocaleString'']"

text \<open>The property read \<^verbatim>\<open>obj[k]\<close> on the catalog: \<open>None\<close> is \<^verbatim>\<open>undefined\<close>.\<close>

definition property_read :: "(string \<times> map_def) list \<Rightarrow> string \<Rightarrow> current_value option" where
  "property_read obj k =
     (case map_of obj k of
        Some m \<Rightarrow> Some (MapDefinition m)
      | None \<Rightarrow> if k \<in> set Object_prototype_members then Some (InheritedMember k) else None)"

text \<open>
  Reading a getter of a map definition, such as \<^verbatim>\<open>this.current.Style\<close>, on what
  \<^verbatim>\<open>this.current\<close> holds: \<^verbatim>\<open>undefined\<close> on an inherited member.
\<close>

definition getter :: "(map_def \<Rightarrow> 'a) \<Rightarrow> current_value \<Rightarrow> 'a option" where
  "getter g v = (case v of MapDefinition c \<Rightarrow> Some (g c) | InheritedMember n \<Rightarrow> None)"

record app =
  app_config :: config
  current :: "current_value option"
  maxExtent :: "(rat \<times> rat) \<times> (rat \<times> rat)"
  map_of_app :: "map_handle option"
  group_of_app :: "group_controls option"
  menu :: "menu_button list option"
  table :: "table_widget option"
  Store :: store
  calls :: "effect list"

text \<open>
  A method either returns the new state or throws, leaving the state it had reached.
\<close>

type_synonym result = "(error \<times> app) + app"

definition emit :: "effect \<Rightarrow> app \<Rightarrow> app" where
  "emit e s = s\<lparr>calls := calls s @ [e]\<rparr>"

fun emits :: "effect list \<Rightarrow> app \<Rightarrow> app" where
  "emits [] s = s"
| "emits (e # es) s = emits es (emit e s)"

text \<open>Statements in sequence: the first throw ends the run.\<close>

fun run_steps :: "(app \<Rightarrow> result) list \<Rightarrow> app \<Rightarrow> result" where
  "run_steps [] s = Inr s"
| "run_steps (f # fs) s = (case f s of Inl e \<Rightarrow> Inl e | Inr s' \<Rightarrow> run_steps fs s')"

text \<open>A method call on \<^verbatim>\<open>this.map\<close>: a \<^verbatim>\<open>TypeError\<close> when there is no map.\<close>

definition map_call :: "effect \<Rightarrow> app \<Rightarrow> result" where
  "map_call e s = (case map_of_app s of None \<Rightarrow> Inl (TypeError, s) | Some m \<Rightarrow> Inr (emit e s))"

section \<open>Search items\<close>

text \<open>String conversion inside a template literal.\<close>

fun ToString :: "collaborators \<Rightarrow> jsval \<Rightarrow> string" where
  "ToString env JUndefined = ''undefined''"
| "ToString env (JStr s) = s"
| "ToString env (JNum n) = Number_toString env n"

text \<open>
  The arrow function of \<^verbatim>\<open>AddSearch\<close>. Indexing one of the derived objects with
  \<^verbatim>\<open>0..5\<close> finds no such property.
\<close>

fun search_entry_index :: "search_entry \<Rightarrow> nat \<Rightarrow> jsval" where
  "search_entry_index (Row a) k = js_index a k"
| "search_entry_index (Item _) k = JUndefined"

definition make_item :: "collaborators \<Rightarrow> search_entry \<Rightarrow> search_entry" where
  "make_item env i = Item \<lparr>
     item_id = search_entry_index i 0,
     item_name = search_entry_index i 1,
     item_label = ToString env (search_entry_index i 1) @ '' ('' @ ToString env (search_entry_index i 0) @ '')'',
     item_extent = ((search_entry_index i 2, search_entry_index i 3),
                    (search_entry_index i 4, search_entry_index i 5)) \<rparr>"

definition AddSearch :: "collaborators \<Rightarrow> app \<Rightarrow> result" where
  "AddSearch env s =
     (let items = map (make_item env) (search_items (cfg_search (app_config s)));
          s1 = s\<lparr>app_config := (app_config s)\<lparr>cfg_search := (cfg_search (app_config s))\<lparr>search_items := items\<rparr>\<rparr>\<rparr>
      in Inr (emits [Factory_SearchControl items (Nls env ''Search_Placeholder'') (Nls env ''Search_Title''),
                     Search_Place ''search'',
                     Search_On ''Change'',
                     Search_input_id ''lode-search''] s1))"

section \<open>Construction\<close>

text \<open>
  Modelled from the spec: \<^verbatim>\<open>Util.FirstProperty\<close> belongs to the component library,
  which is not part of the sources at hand. The spec calls its result "the catalog's
  first entry"; on an object without properties there is none.
\<close>

definition FirstProperty :: "(string \<times> 'a) list \<Rightarrow> 'a option" where
  "FirstProperty obj = (case obj of [] \<Rightarrow> None | (k, v) # _ \<Rightarrow> Some v)"

definition token_message :: string where
  "token_message = ''Mapbox access token must be provided in config.credentials.json to generate a map''"

text \<open>The body of the \<^verbatim>\<open>try\<close> block of \<^verbatim>\<open>AddMap\<close>.\<close>

definition AddMap_try :: "collaborators \<Rightarrow> app \<Rightarrow> result" where
  "AddMap_try env s =
     (case cfg_credentials (app_config s) of
        None \<Rightarrow> Inl (Thrown token_message, s)
      | Some cr \<Rightarrow>
         (case mapbox cr of
            None \<Rightarrow> Inl (Thrown token_message, s)
          | Some mb \<Rightarrow>
             (case accessToken mb of
                None \<Rightarrow> Inl (Thrown token_message, s)
              | Some token \<Rightarrow>
                 if token = [] then Inl (Thrown token_message, s)
                 else
                   (case current s of
                      None \<Rightarrow> Inl (TypeError, s)
                    | Some v \<Rightarrow>
                       run_steps
                         [map_call (SetMaxBounds (maxExtent s)),
                          map_call (Map_On ''StyleChanged''),
                          map_call (Map_On ''MoveEnd''),
                          map_call (Map_On ''ZoomEnd''),
                          map_call (Map_On ''Click'')]
                         (emit (Factory_Map token (getter Style v)
                                  (Store_Lng (Store s), Store_Lat (Store s)) (Store_Zoom (Store s)))
                            (s\<lparr>map_of_app := Some \<lparr>Center_lat = Store_Lat (Store s),
                                                    Center_lng = Store_Lng (Store s),
                                                    Zoom = Store_Zoom (Store s)\<rparr>\<rparr>))))))"

text \<open>The \<^verbatim>\<open>catch\<close> clause logs whatever was thrown and goes on.\<close>

definition AddMap :: "collaborators \<Rightarrow> app \<Rightarrow> result" where
  "AddMap env s =
     (case AddMap_try env s of
        Inl (err, s') \<Rightarrow> Inr (emit (Console_error err) s')
      | Inr s' \<Rightarrow> Inr s')"

fun AddDataSources_loop :: "data_source list \<Rightarrow> app \<Rightarrow> result" where
  "AddDataSources_loop [] s = Inr s"
| "AddDataSources_loop (d # ds) s =
     (case (ds_name d, ds_data d) of
        (Some currentSourceName, Some currentSourceData) \<Rightarrow>
          if currentSourceName = [] then AddDataSources_loop ds s
          else
            (case run_steps
                    (map_call (AddSource currentSourceName currentSourceData) #
                     (if sd_cluster currentSourceData
                      then [map_call (AddClusters currentSourceName)] else [])) s of
               Inl e \<Rightarrow> Inl e
             | Inr s' \<Rightarrow> AddDataSources_loop ds s')
      | _ \<Rightarrow> AddDataSources_loop ds s)"

definition AddDataSources :: "app \<Rightarrow> result" where
  "AddDataSources s =
     (case current s of
        None \<Rightarrow> Inr s
      | Some v \<Rightarrow>
         (case getter DataSources v of
            Some (Some mapDataSources) \<Rightarrow> AddDataSources_loop mapDataSources s
          | _ \<Rightarrow> Inr s))"

fun AddLayersWithSources_loop :: "layer list \<Rightarrow> app \<Rightarrow> result" where
  "AddLayersWithSources_loop [] s = Inr s"
| "AddLayersWithSources_loop (currentLayer # ls) s =
     (if truthy (layer_source currentLayer)
      then (case map_call (AddLayer currentLayer) s of
              Inl e \<Rightarrow> Inl e
            | Inr s' \<Rightarrow> AddLayersWithSources_loop ls s')
      else AddLayersWithSources_loop ls s)"

definition AddLayersWithSources :: "app \<Rightarrow> result" where
  "AddLayersWithSources s =
     (case current s of
        None \<Rightarrow> Inr s
      | Some v \<Rightarrow>
         (case getter Layers v of
            Some (Some mapLayers) \<Rightarrow> AddLayersWithSources_loop mapLayers s
          | _ \<Rightarrow> Inr s))"

definition AddBaseControls :: "app \<Rightarrow> result" where
  "AddBaseControls s =
     run_steps
       [map_call (AddControl ''fullscreen'' (Some ''top-left'')),
        map_call (AddControl ''navigation'' (Some ''top-left'')),
        map_call (AddControl ''scale'' None)] s"

definition AddGroup :: "collaborators \<Rightarrow> app \<Rightarrow> result" where
  "AddGroup env s =
     (case current s of
        None \<Rightarrow> Inl (TypeError, s)
      | Some v \<Rightarrow>
         (let lg = \<lparr>lc_legend = getter Legend v, lc_title = getter FullTitle v,
                    lc_subtitle = getter Subtitle v,
                    lc_state = Legend_initial_state env (getter Legend v)\<rparr>;
              op = \<lparr>oc_opacity = Store_Opacity (Store s), oc_title = [], oc_label = []\<rparr>;
              s1 = s\<lparr>group_of_app := Some \<lparr>legend = lg, opacity = op\<rparr>\<rparr>
          in case map_call (AddControl ''group'' None) s1 of
               Inl e \<Rightarrow> Inl e
             | Inr s2 \<Rightarrow>
                Inr (emit (Opacity_On ''OpacitySliderChanged'')
                      ((emit (Legend_On ''LegendChange'') s2)
                         \<lparr>group_of_app := Some \<lparr>legend = lg,
                                         opacity = op\<lparr>oc_title := Nls env ''Toc_Opacity_Title'',
                                                      oc_label := Nls env ''Toc_Opacity_Label''\<rparr>\<rparr>\<rparr>))))"

definition AddMenu :: "collaborators \<Rightarrow> app \<Rightarrow> result" where
  "AddMenu env s =
     (case map_call (AddControl ''menu'' (Some ''top-left'')) (s\<lparr>menu := Some []\<rparr>) of
        Inl e \<Rightarrow> Inl e
      | Inr s1 \<Rightarrow>
         Inr (emits
               [Menu_AddButton ''home'' (Core_root env @ ''assets/globe.png'') (Nls env ''Home_Title''),
                Menu_AddPopupButton ''maps'' (Core_root env @ ''assets/layers.png'') (Nls env ''Maps_Title''),
                Menu_AddPopupButton ''bookmarks'' (Core_root env @ ''assets/bookmarks.png'') (Nls env ''Bookmarks_Title''),
                Menu_AddButton ''help'' (Core_root env @ ''assets/help.png'') (Nls env ''Help_Title''),
                MapsList_On ''MapSelected'',
                Bookmarks_On ''BookmarkSelected'']
               (s1\<lparr>menu := Some [Button ''home'', PopupButton ''maps'',
                                  PopupButton ''bookmarks'', Button ''help'']\<rparr>)))"

text \<open>The text a template literal puts for a string that may be \<^verbatim>\<open>undefined\<close>.\<close>

definition template_text :: "string option \<Rightarrow> string" where
  "template_text v = (case v of None \<Rightarrow> ''undefined'' | Some u \<Rightarrow> u)"

text \<open>\<^verbatim>\<open>ReloadTable\<close> up to the point where the request has been issued.\<close>

definition ReloadTable :: "collaborators \<Rightarrow> app \<Rightarrow> result" where
  "ReloadTable env s =
     (let s1 = emit (Dom_Empty ''table'') s
      in case current s1 of
           None \<Rightarrow> Inl (TypeError, s1)
         | Some v \<Rightarrow>
            Inr (emit (Net_JSON (Core_root env @ template_text (getter TableUrl v))) s1))"

text \<open>
  The callback given to \<^verbatim>\<open>then\<close>: it runs when the response \<open>r\<close> arrives, in the state
  the application has by then. Only a map definition has the method \<^verbatim>\<open>UpdateTable\<close>.
\<close>

definition ReloadTable_then :: "dataset \<Rightarrow> app \<Rightarrow> result" where
  "ReloadTable_then r s =
     (case current s of
        None \<Rightarrow> Inl (TypeError, s)
      | Some (InheritedMember n) \<Rightarrow> Inl (TypeError, s)
      | Some (MapDefinition c) \<Rightarrow>
         (let c' = c\<lparr>TableData := Some r\<rparr>;
              s1 = emit (Map_UpdateTable r) (s\<lparr>current := Some (MapDefinition c')\<rparr>);
              s2 = emit (New_Table (TableData c')) (s1\<lparr>table := Some (Table (TableData c'))\<rparr>)
          in Inr (emit (Message_setAttribute ''href'' ''#lode-search'') s2)))"

text \<open>
  The field assignments at the head of the constructor. Map definitions and inherited
  members are objects and so truthy: the fallback is taken exactly when the property
  read under \<^verbatim>\<open>Store.Map\<close> gives \<^verbatim>\<open>undefined\<close>.
\<close>

definition constructor_fields :: "config \<Rightarrow> store \<Rightarrow> app" where
  "constructor_fields cfg st =
     \<lparr>app_config = cfg,
      current = (case property_read (cfg_maps cfg) (Store_Map st) of
                   Some v \<Rightarrow> Some v
                 | None \<Rightarrow> map_option MapDefinition (FirstProperty (cfg_maps cfg))),
      maxExtent = ((-162, 41), (-32, 83.5)),
      map_of_app = None, group_of_app = None, menu = None, table = None,
      Store = st, calls = []\<rparr>"

definition constructor :: "collaborators \<Rightarrow> config \<Rightarrow> store \<Rightarrow> result" where
  "constructor env cfg st =
     run_steps
       [AddMap env, AddSearch env, AddBaseControls, AddGroup env, AddMenu env, ReloadTable env]
       (constructor_fields cfg st)"

section \<open>Event handlers\<close>

text \<open>
  \<^verbatim>\<open>this.map.UpdateMapLayersWithLegendState(this.current.LayerIDs, this.group.legend,
  Store.Opacity)\<close>, the statement shared by three handlers.
\<close>

definition update_layers :: "app \<Rightarrow> result" where
  "update_layers s =
     (case (map_of_app s, current s, group_of_app s) of
        (Some m, Some v, Some g) \<Rightarrow>
          Inr (emit (UpdateMapLayersWithLegendState (getter LayerIDs v) (legend g)
                       (Store_Opacity (Store s))) s)
      | _ \<Rightarrow> Inl (TypeError, s))"

definition OnLegend_Changed :: "app \<Rightarrow> result" where
  "OnLegend_Changed s = update_layers s"

definition OnOpacitySlider_Changed :: "rat \<Rightarrow> app \<Rightarrow> result" where
  "OnOpacitySlider_Changed ev_opacity s =
     update_layers
       (emit (Store_set ''Opacity'' (JNum ev_opacity))
          (s\<lparr>Store := (Store s)\<lparr>Store_Opacity := ev_opacity\<rparr>\<rparr>))"

definition OnHomeClick_Handler :: "app \<Rightarrow> result" where
  "OnHomeClick_Handler s =
     map_call (FitBounds ((JNum (-173.457), JNum 41.846), (JNum (-17.324), JNum 75.848)) None) s"

definition OnHelpClick_Handler :: "app \<Rightarrow> result" where
  "OnHelpClick_Handler s = Inr (emit Help_click s)"

definition popup_Hide :: "string \<Rightarrow> app \<Rightarrow> result" where
  "popup_Hide b s =
     (case menu s of
        None \<Rightarrow> Inl (TypeError, s)
      | Some buttons \<Rightarrow>
         if PopupButton b \<in> set buttons then Inr (emit (Popup_Hide b) s)
         else Inl (TypeError, s))"

definition OnBookmarkSelected_Handler :: "bookmark \<Rightarrow> app \<Rightarrow> result" where
  "OnBookmarkSelected_Handler ev_item s =
     run_steps
       [popup_Hide ''bookmarks'',
        map_call (FitBounds (bm_extent ev_item) (Some \<lparr>fo_padding = None, fo_animate = Some False\<rparr>))] s"

definition legend_Reload :: "collaborators \<Rightarrow> app \<Rightarrow> result" where
  "legend_Reload env s =
     (case (group_of_app s, current s) of
        (Some g, Some v) \<Rightarrow>
          Inr (emit (Legend_Reload (getter Legend v) (getter FullTitle v) (getter Subtitle v))
                (s\<lparr>group_of_app := Some (g\<lparr>legend :=
                     \<lparr>lc_legend = getter Legend v, lc_title = getter FullTitle v,
                      lc_subtitle = getter Subtitle v,
                      lc_state = Legend_reloaded_state env (legend g) (getter Legend v)\<rparr>\<rparr>)\<rparr>))
      | _ \<Rightarrow> Inl (TypeError, s))"

definition set_style :: "app \<Rightarrow> result" where
  "set_style s =
     (case (map_of_app s, current s) of
        (Some m, Some v) \<Rightarrow> Inr (emit (SetStyle (getter Style v)) s)
      | _ \<Rightarrow> Inl (TypeError, s))"

definition OnMapSelected_Handler :: "collaborators \<Rightarrow> map_selected_event \<Rightarrow> app \<Rightarrow> result" where
  "OnMapSelected_Handler env ev s =
     run_steps
       [popup_Hide ''maps'',
        (\<lambda>s. Inr (emit (Store_set ''Map'' (JStr (ms_id ev)))
                    (s\<lparr>Store := (Store s)\<lparr>Store_Map := ms_id ev\<rparr>\<rparr>))),
        (\<lambda>s. Inr (s\<lparr>current := Some (MapDefinition (ms_map ev))\<rparr>)),
        set_style,
        ReloadTable env,
        legend_Reload env] s"

definition apply_legend_styles :: "app \<Rightarrow> result" where
  "apply_legend_styles s =
     (case (map_of_app s, current s, group_of_app s) of
        (Some m, Some v, Some g) \<Rightarrow>
          Inr (emit (ApplyLegendStylesToMapLayers (getter LayerIDs v) (LegendControl (legend g))) s)
      | _ \<Rightarrow> Inl (TypeError, s))"

definition OnMapStyleChanged_Handler :: "app \<Rightarrow> result" where
  "OnMapStyleChanged_Handler s =
     run_steps
       [map_call SetClickableMap, AddDataSources, AddLayersWithSources,
        apply_legend_styles, update_layers] s"

definition OnMapMoveEnd_Handler :: "app \<Rightarrow> result" where
  "OnMapMoveEnd_Handler s =
     (case map_of_app s of
        None \<Rightarrow> Inl (TypeError, s)
      | Some m \<Rightarrow>
         Inr (emits [Store_set ''Lat'' (JNum (Center_lat m)), Store_set ''Lng'' (JNum (Center_lng m))]
               (s\<lparr>Store := (Store s)\<lparr>Store_Lat := Center_lat m, Store_Lng := Center_lng m\<rparr>\<rparr>)))"

definition OnMapZoomEnd_Handler :: "app \<Rightarrow> result" where
  "OnMapZoomEnd_Handler s =
     (case map_of_app s of
        None \<Rightarrow> Inl (TypeError, s)
      | Some m \<Rightarrow>
         Inr (emit (Store_set ''Zoom'' (JNum (Zoom m)))
               (s\<lparr>Store := (Store s)\<lparr>Store_Zoom := Zoom m\<rparr>\<rparr>)))"

text \<open>The \<^verbatim>\<open>for ... in\<close> loop over the clicked feature's properties.\<close>

fun fix_fields :: "collaborators \<Rightarrow> (string \<times> jsval) list \<Rightarrow> (string \<times> jsval) list" where
  "fix_fields env [] = []"
| "fix_fields env ((fld, v) # ps) = (fld, FixField env fld v) # fix_fields env ps"

definition OnMapClick_Handler :: "collaborators \<Rightarrow> click_event \<Rightarrow> app \<Rightarrow> result" where
  "OnMapClick_Handler env ev s =
     (case (map_of_app s, current s) of
        (Some m, Some v) \<Rightarrow>
          (let s1 = emit (QueryRenderedFeatures (ce_point ev) (getter ClickableLayersIDs v)) s
           in case Rendered env (ce_point ev) (getter ClickableLayersIDs v) of
                [] \<Rightarrow> Inr s1
              | f # _ \<Rightarrow>
                 Inr (emit (InfoPopup (ce_lngLat ev)
                             (HTMLize env (fix_fields env (properties f)) (getter Fields v)
                                (Nls env ''Map_Not_Available''))) s1))
      | _ \<Rightarrow> Inl (TypeError, s))"

definition search_legend :: "config \<Rightarrow> search_item \<Rightarrow> legend_item list" where
  "search_legend cfg ev_item =
     [\<lparr>li_color = search_color (cfg_search cfg),
       li_value = Some (Arr [Lit (JStr ''==''),
                             Arr [Lit (JStr ''get''), Lit (JStr (search_field (cfg_search cfg)))],
                             Lit (item_id ev_item)])\<rparr>,
      \<lparr>li_color = [255, 255, 255, 0], li_value = None\<rparr>]"

definition OnSearchChange_Handler :: "search_item \<Rightarrow> app \<Rightarrow> result" where
  "OnSearchChange_Handler ev_item s =
     (case table s of
        None \<Rightarrow> Inl (TypeError, s)
      | Some t \<Rightarrow>
         run_steps
           [map_call (ApplyLegendStylesToMapLayers (Some [search_layer (cfg_search (app_config s))])
                        (LegendLiteral (search_legend (app_config s) ev_item))),
            map_call (FitBounds (item_extent ev_item)
                        (Some \<lparr>fo_padding = Some 30, fo_animate = Some False\<rparr>))]
           (emit (Table_UpdateTable ev_item) s))"

section \<open>Reading results\<close>

text \<open>The state a run ended in, whether it returned or threw.\<close>

definition reached :: "result \<Rightarrow> app" where
  "reached r = (case r of Inl (e, s) \<Rightarrow> s | Inr s \<Rightarrow> s)"

text \<open>The calls a run made, given the state it started from.\<close>

definition emitted :: "app \<Rightarrow> result \<Rightarrow> effect list" where
  "emitted s r = drop (length (calls s)) (calls (reached r))"

text \<open>
  The state a successful construction leaves, for a configuration with access token
  \<open>token\<close> when \<^verbatim>\<open>this.current\<close> holds \<open>v\<close>.
\<close>

definition constructed ::
  "collaborators \<Rightarrow> config \<Rightarrow> store \<Rightarrow> string \<Rightarrow> current_value \<Rightarrow> app" where
  "constructed env cfg st token v =
     \<lparr>app_config = cfg\<lparr>cfg_search := (cfg_search cfg)\<lparr>search_items :=
                       map (make_item env) (search_items (cfg_search cfg))\<rparr>\<rparr>,
      current = Some v,
      maxExtent = ((-162, 41), (-32, 83.5)),
      map_of_app = Some \<lparr>Center_lat = Store_Lat st, Center_lng = Store_Lng st, Zoom = Store_Zoom st\<rparr>,
      group_of_app = Some \<lparr>legend = \<lparr>lc_legend = getter Legend v, lc_title = getter FullTitle v,
                                lc_subtitle = getter Subtitle v,
                                lc_state = Legend_initial_state env (getter Legend v)\<rparr>,
                     opacity = \<lparr>oc_opacity = Store_Opacity st,
                                 oc_title = Nls env ''Toc_Opacity_Title'',
                                 oc_label = Nls env ''Toc_Opacity_Label''\<rparr>\<rparr>,
      menu = Some [Button ''home'', PopupButton ''maps'', PopupButton ''bookmarks'', Button ''help''],
      table = None,
      Store = st,
      calls =
        [Factory_Map token (getter Style v) (Store_Lng st, Store_Lat st) (Store_Zoom st),
         SetMaxBounds ((-162, 41), (-32, 83.5)),
         Map_On ''StyleChanged'', Map_On ''MoveEnd'', Map_On ''ZoomEnd'', Map_On ''Click'',
         Factory_SearchControl (map (make_item env) (search_items (cfg_search cfg)))
           (Nls env ''Search_Placeholder'') (Nls env ''Search_Title''),
         Search_Place ''search'', Search_On ''Change'', Search_input_id ''lode-search'',
         AddControl ''fullscreen'' (Some ''top-left''),
         AddControl ''navigation'' (Some ''top-left''),
         AddControl ''scale'' None,
         AddControl ''group'' None,
         Legend_On ''LegendChange'', Opacity_On ''OpacitySliderChanged'',
         AddControl ''menu'' (Some ''top-left''),
         Menu_AddButton ''home'' (Core_root env @ ''assets/globe.png'') (Nls env ''Home_Title''),
         Menu_AddPopupButton ''maps'' (Core_root env @ ''assets/layers.png'') (Nls env ''Maps_Title''),
         Menu_AddPopupButton ''bookmarks'' (Core_root env @ ''assets/bookmarks.png'') (Nls env ''Bookmarks_Title''),
         Menu_AddButton ''help'' (Core_root env @ ''assets/help.png'') (Nls env ''Help_Title''),
         MapsList_On ''MapSelected'', Bookmarks_On ''BookmarkSelected'',
         Dom_Empty ''table'',
         Net_JSON (Core_root env @ template_text (getter TableUrl v))]\<rparr>"

section \<open>Notions of the specification\<close>

text \<open>
  The specification speaks of a generation counter, bumped on every map selection and
  captured by every table fetch. The application keeps no such counter, so it is kept
  beside the application state: \<open>select_map\<close> is the handler with the counter bumped,
  and \<open>fetch_completes g r\<close> is the arrival of response \<open>r\<close> for a fetch issued in
  generation \<open>g\<close>, which runs the callback of \<^verbatim>\<open>ReloadTable\<close>; the callback has no access
  to \<open>g\<close>.
\<close>

record tracked =
  tr_app :: app
  tr_generation :: nat

definition select_map :: "collaborators \<Rightarrow> map_selected_event \<Rightarrow> tracked \<Rightarrow> tracked" where
  "select_map env ev t =
     \<lparr>tr_app = reached (OnMapSelected_Handler env ev (tr_app t)),
      tr_generation = Suc (tr_generation t)\<rparr>"

definition fetch_completes :: "nat \<Rightarrow> dataset \<Rightarrow> tracked \<Rightarrow> result" where
  "fetch_completes g r t = ReloadTable_then r (tr_app t)"

text \<open>
  A layer's source name resolves to a data source that was added: a data source of the
  map with a name and data, under the layer's source name.
\<close>

definition resolves_to_added_source :: "map_def \<Rightarrow> layer \<Rightarrow> bool" where
  "resolves_to_added_source c l =
     (case DataSources c of
        None \<Rightarrow> False
      | Some ds \<Rightarrow>
         list_ex (\<lambda>d. truthy (ds_name d) \<and> ds_data d \<noteq> None \<and> ds_name d = layer_source l) ds)"

text \<open>
  The legend control changes its state to \<open>lg\<close> and raises \<^verbatim>\<open>LegendChange\<close>; the handler
  ignores the event object and reads \<^verbatim>\<open>this.group.legend\<close>.
\<close>

definition raise_LegendChange :: "legend_control \<Rightarrow> app \<Rightarrow> result" where
  "raise_LegendChange lg s =
     OnLegend_Changed (s\<lparr>group_of_app := map_option (\<lambda>g. g\<lparr>legend := lg\<rparr>) (group_of_app s)\<rparr>)"

text \<open>
  The styling directive is computed inside \<^verbatim>\<open>UpdateMapLayersWithLegendState\<close>, in the
  component library, from the legend and the opacity it is given; \<open>directive\<close> stands
  for that computation. The directive last applied is the one of the last call made,
  with the layers it was applied to.
\<close>

definition applied_directive ::
  "(legend_control \<Rightarrow> rat \<Rightarrow> 'd) \<Rightarrow> effect \<Rightarrow> (string list option \<times> 'd) option" where
  "applied_directive directive e =
     (case e of
        UpdateMapLayersWithLegendState ids lg op \<Rightarrow> Some (ids, directive lg op)
      | _ \<Rightarrow> None)"

definition final_directive ::
  "(legend_control \<Rightarrow> rat \<Rightarrow> 'd) \<Rightarrow> result \<Rightarrow> (string list option \<times> 'd) option" where
  "final_directive directive r =
     (if calls (reached r) = [] then None
      else applied_directive directive (last (calls (reached r))))"

section \<open>A small configuration\<close>

definition example_env :: collaborators where
  "example_env =
     \<lparr>Nls = (\<lambda>k. k),
      Core_root = ''/'',
      Number_toString = (\<lambda>n. ''0''),
      Legend_initial_state = (\<lambda>l. case l of None \<Rightarrow> [] | Some items \<Rightarrow> map (\<lambda>i. True) items),
      Legend_reloaded_state = (\<lambda>old l. case l of None \<Rightarrow> [] | Some items \<Rightarrow> map (\<lambda>i. True) items),
      FixField = (\<lambda>fld v. case v of JUndefined \<Rightarrow> JStr ''..'' | _ \<Rightarrow> v),
      HTMLize = (\<lambda>ps fields na. concat (map fst ps)),
      Rendered = (\<lambda>p ids. if p = (1, 1)
                          then [\<lparr>properties = [(''CSDUID'', JStr ''2410''), (''Name'', JUndefined)]\<rparr>,
                                \<lparr>properties = [(''Below'', JStr ''x'')]\<rparr>]
                          else [])\<rparr>"

definition map_a :: map_def where
  "map_a =
     \<lparr>Style = ''mapbox://styles/a'',
      DataSources = Some [\<lparr>ds_name = Some ''odhf'', ds_data = Some \<lparr>sd_type = ''geojson'', sd_cluster = True\<rparr>\<rparr>],
      Layers = Some [\<lparr>layer_id = ''odhf-points'', layer_source = Some ''odhf''\<rparr>,
                     \<lparr>layer_id = ''csd-search'', layer_source = Some ''composite''\<rparr>,
                     \<lparr>layer_id = ''draft'', layer_source = None\<rparr>],
      Legend = [\<lparr>li_color = [255, 0, 0, 1], li_value = Some (Arr [Lit (JStr ''==''), Lit (JStr ''a'')])\<rparr>,
                \<lparr>li_color = [0, 0, 0, 1], li_value = None\<rparr>],
      FullTitle = ''Map A'', Subtitle = ''first'',
      TableUrl = ''data/a.json'',
      LayerIDs = [''odhf-points''],
      ClickableLayersIDs = [''odhf-points''],
      Fields = [''CSDUID'', ''Name''],
      TableData = None\<rparr>"

definition map_b :: map_def where
  "map_b =
     \<lparr>Style = ''mapbox://styles/b'',
      DataSources = Some [],
      Layers = Some [\<lparr>layer_id = ''csd-search'', layer_source = Some ''composite''\<rparr>],
      Legend = [\<lparr>li_color = [0, 0, 255, 1], li_value = None\<rparr>],
      FullTitle = ''Map B'', Subtitle = ''second'',
      TableUrl = ''data/b.json'',
      LayerIDs = [''csd-search''],
      ClickableLayersIDs = [],
      Fields = [],
      TableData = None\<rparr>"

definition example_cfg :: config where
  "example_cfg =
     \<lparr>cfg_credentials = Some \<lparr>mapbox = Some \<lparr>accessToken = Some ''pk.token''\<rparr>\<rparr>,
      cfg_maps = [(''a'', map_a), (''b'', map_b)],
      cfg_search = \<lparr>search_items = [Row [JStr ''2410'', JStr ''Sample'', JNum (-74), JNum 45, JNum (-73), JNum 46]],
                    search_color = [255, 255, 0, 1],
                    search_field = ''CSDUID'',
                    search_layer = ''csd-search''\<rparr>,
      cfg_bookmarks = []\<rparr>"

definition example_store :: store where
  "example_store =
     \<lparr>Store_Map = ''a'', Store_Lat = 45, Store_Lng = -75, Store_Zoom = 4, Store_Opacity = 3 / 4\<rparr>"

definition example_item :: search_item where
  "example_item =
     \<lparr>item_id = JStr ''2410'', item_name = JStr ''Sample'', item_label = ''Sample (2410)'',
      item_extent = ((JNum (-74), JNum 45), (JNum (-73), JNum 46))\<rparr>"

text \<open>The application right after construction, and with a loaded table.\<close>

definition example_app :: app where
  "example_app = constructed example_env example_cfg example_store ''pk.token'' (MapDefinition map_a)"

definition example_loaded :: app where
  "example_loaded = example_app\<lparr>table := Some (Table (Some [[JStr ''2410'', JStr ''Sample'']]))\<rparr>"

text \<open>The application after the user has switched from map a to map b: generation 1.\<close>

definition example_switched :: tracked where
  "example_switched =
     select_map example_env \<lparr>ms_id = ''b'', ms_map = map_b\<rparr> \<lparr>tr_app = example_app, tr_generation = 0\<rparr>"

section \<open>Auxiliary notions\<close>

text \<open>The calls that adding a list of data sources makes on a live map.\<close>

fun source_calls :: "data_source list \<Rightarrow> effect list" where
  "source_calls [] = []"
| "source_calls (d # ds) =
     (case (ds_name d, ds_data d) of
        (Some n, Some dat) \<Rightarrow>
          if n = [] then []
          else AddSource n dat # (if sd_cluster dat then [AddClusters n] else [])
      | _ \<Rightarrow> []) @ source_calls ds"

definition layer_list :: "map_def \<Rightarrow> layer list" where
  "layer_list c = (case Layers c of None \<Rightarrow> [] | Some ls \<Rightarrow> ls)"

definition source_list :: "map_def \<Rightarrow> data_source list" where
  "source_list c = (case DataSources c of None \<Rightarrow> [] | Some ds \<Rightarrow> ds)"

definition is_SearchControl :: "effect \<Rightarrow> bool" where
  "is_SearchControl e = (case e of Factory_SearchControl items p t \<Rightarrow> True | _ \<Rightarrow> False)"

section \<open>Basic facts\<close>

lemma emits_eq: "emits es s = s\<lparr>calls := calls s @ es\<rparr>"
  by (induction es arbitrary: s) (simp_all add: emit_def)

lemma fix_fields_map: "fix_fields env ps = map (\<lambda>(fld, v). (fld, FixField env fld v)) ps"
  by (induction ps) auto

lemma constructor_ok:
  assumes "cfg_credentials cfg = Some cr" and "mapbox cr = Some mb"
    and "accessToken mb = Some token" and "token \<noteq> []"
    and "current (constructor_fields cfg st) = Some v"
  shows "constructor env cfg st = Inr (constructed env cfg st token v)"
  using assms
  by (simp add: constructor_def constructor_fields_def AddMap_def AddMap_try_def map_call_def
      emit_def AddSearch_def AddBaseControls_def AddGroup_def AddMenu_def ReloadTable_def Let_def
      constructed_def)

lemma current_selected:
  "cfg_maps cfg \<noteq> [] \<Longrightarrow>
   Store_Map st \<in> fst ` set (cfg_maps cfg) \<or> Store_Map st \<notin> set Object_prototype_members \<Longrightarrow>
   current (constructor_fields cfg st) =
     (case map_of (cfg_maps cfg) (Store_Map st) of
        Some m \<Rightarrow> Some (MapDefinition m)
      | None \<Rightarrow> Some (MapDefinition (snd (hd (cfg_maps cfg)))))"
  by (cases "cfg_maps cfg")
    (force simp: constructor_fields_def FirstProperty_def property_read_def map_of_eq_None_iff
      split: option.splits dest: map_of_SomeD)+

lemma example_credentials:
  "cfg_credentials example_cfg = Some \<lparr>mapbox = Some \<lparr>accessToken = Some ''pk.token''\<rparr>\<rparr>"
  "mapbox \<lparr>mapbox = Some \<lparr>accessToken = Some ''pk.token''\<rparr>\<rparr> = Some \<lparr>accessToken = Some ''pk.token''\<rparr>"
  "accessToken \<lparr>accessToken = Some ''pk.token''\<rparr> = Some ''pk.token''"
  "''pk.token'' \<noteq> []"
  by (simp_all add: example_cfg_def)

lemma example_constructor: "constructor example_env example_cfg example_store = Inr example_app"
  unfolding example_app_def
  by (rule constructor_ok[OF example_credentials])
    (simp add: example_cfg_def example_store_def constructor_fields_def property_read_def)

lemma example_app_fields:
  "map_of_app example_app = Some \<lparr>Center_lat = 45, Center_lng = -75, Zoom = 4\<rparr>"
  "current example_app = Some (MapDefinition map_a)"
  by (simp_all add: example_app_def constructed_def example_store_def)

lemma example_app_group:
  "group_of_app example_app =
     Some \<lparr>legend = \<lparr>lc_legend = Some (Legend map_a), lc_title = Some ''Map A'',
                     lc_subtitle = Some ''first'', lc_state = [True, True]\<rparr>,
           opacity = \<lparr>oc_opacity = 3 / 4, oc_title = ''Toc_Opacity_Title'',
                      oc_label = ''Toc_Opacity_Label''\<rparr>\<rparr>"
  by (simp add: example_app_def constructed_def example_store_def example_env_def map_a_def
      getter_def)

lemma example_app_menu:
  "menu example_app = Some [Button ''home'', PopupButton ''maps'', PopupButton ''bookmarks'', Button ''help'']"
  by (simp add: example_app_def constructed_def)

lemma example_app_store: "Store example_app = example_store"
  by (simp add: example_app_def constructed_def)

lemma map_call_live: "map_of_app s = Some m \<Longrightarrow> map_call e s = Inr (s\<lparr>calls := calls s @ [e]\<rparr>)"
  by (simp add: map_call_def emit_def)

subsection \<open>When the constructor returns\<close>

lemma AddMap_try_throws_unchanged: "AddMap_try env s = Inl (err, s') \<Longrightarrow> s' = s"
  by (auto simp: AddMap_try_def map_call_def emit_def split: option.splits if_splits)

lemma AddMap_try_returns:
  "AddMap_try env (constructor_fields cfg st) = Inr s' \<Longrightarrow>
     \<exists>cr mb token v. cfg_credentials cfg = Some cr \<and> mapbox cr = Some mb \<and>
        accessToken mb = Some token \<and> token \<noteq> [] \<and> current (constructor_fields cfg st) = Some v"
  by (auto simp: AddMap_try_def constructor_fields_def split: option.splits if_splits)

lemma constructor_without_map:
  assumes "AddMap_try env (constructor_fields cfg st) = Inl (err, s')"
  shows "\<exists>s''. constructor env cfg st = Inl (TypeError, s'')"
proof -
  have "s' = constructor_fields cfg st"
    using AddMap_try_throws_unchanged[OF assms] .
  then show ?thesis
    using assms
    by (simp add: constructor_def AddMap_def AddSearch_def AddBaseControls_def map_call_def emits_eq
        emit_def constructor_fields_def Let_def)
qed

lemma constructor_returns:
  assumes "constructor env cfg st = Inr s"
  shows "\<exists>token v. s = constructed env cfg st token v"
proof (cases "AddMap_try env (constructor_fields cfg st)")
  case (Inl a)
  then show ?thesis
    using constructor_without_map[of env cfg st "fst a" "snd a"] assms by auto
next
  case (Inr b)
  from AddMap_try_returns[OF Inr] obtain cr mb token v where
    "cfg_credentials cfg = Some cr" "mapbox cr = Some mb" "accessToken mb = Some token" "token \<noteq> []"
    "current (constructor_fields cfg st) = Some v"
    by blast
  from constructor_ok[OF this, of env] assms show ?thesis
    by auto
qed

subsection \<open>Style-ready on a live map\<close>

lemma AddLayersWithSources_loop_live:
  "map_of_app s = Some m \<Longrightarrow>
   AddLayersWithSources_loop ls s =
     Inr (s\<lparr>calls := calls s @ map AddLayer (filter (\<lambda>l. truthy (layer_source l)) ls)\<rparr>)"
  by (induction ls arbitrary: s) (simp_all add: map_call_live)

lemma AddDataSources_loop_live:
  "map_of_app s = Some m \<Longrightarrow>
   AddDataSources_loop ds s = Inr (s\<lparr>calls := calls s @ source_calls ds\<rparr>)"
  by (induction ds arbitrary: s) (auto simp: map_call_live split: option.splits)

lemma AddLayer_notin_source_calls: "AddLayer l \<notin> set (source_calls ds)"
  by (induction ds) (auto split: option.splits)

lemma style_changed_live:
  assumes "map_of_app s = Some m" and "current s = Some (MapDefinition c)"
    and "group_of_app s = Some g"
  shows "OnMapStyleChanged_Handler s =
           Inr (s\<lparr>calls := calls s @ [SetClickableMap] @ source_calls (source_list c) @
                   map AddLayer (filter (\<lambda>l. truthy (layer_source l)) (layer_list c)) @
                   [ApplyLegendStylesToMapLayers (Some (LayerIDs c)) (LegendControl (legend g)),
                    UpdateMapLayersWithLegendState (Some (LayerIDs c)) (legend g)
                      (Store_Opacity (Store s))]\<rparr>)"
  using assms
  by (simp add: OnMapStyleChanged_Handler_def map_call_live AddDataSources_def AddLayersWithSources_def
      AddLayersWithSources_loop_live AddDataSources_loop_live apply_legend_styles_def update_layers_def
      emit_def layer_list_def source_list_def getter_def split: option.splits)

lemma resolves_truthy: "resolves_to_added_source c l \<Longrightarrow> truthy (layer_source l)"
  by (auto simp: resolves_to_added_source_def list_ex_iff split: option.splits)

lemma example_layers:
  "Layers map_a = Some [\<lparr>layer_id = ''odhf-points'', layer_source = Some ''odhf''\<rparr>,
                        \<lparr>layer_id = ''csd-search'', layer_source = Some ''composite''\<rparr>,
                        \<lparr>layer_id = ''draft'', layer_source = None\<rparr>]"
  by (simp add: map_a_def)

lemma example_layer_ids: "LayerIDs map_a = [''odhf-points'']"
  by (simp add: map_a_def)

subsection \<open>After the switch to map b\<close>

lemma example_switched_fields:
  "tr_generation example_switched = 1"
  "current (tr_app example_switched) = Some (MapDefinition map_b)"
  "table (tr_app example_switched) = None"
  by (simp_all add: example_switched_def select_map_def reached_def
      OnMapSelected_Handler_def popup_Hide_def emit_def set_style_def ReloadTable_def
      legend_Reload_def Let_def example_app_menu example_app_fields example_app_group)
    (simp_all add: example_app_def constructed_def)

section \<open>Startup\<close>

text \<open>
  With an access token configured and a catalog that is not empty, and for a persisted
  \<^verbatim>\<open>Store.Map\<close> that is a key of the catalog or else not the name of an inherited member,
  the constructor returns, and the map it has selected is the catalog entry under the
  persisted id when there is one and the catalog's first entry otherwise.
\<close>

lemma startup_selection_apart_from_inherited_names:
  assumes "cfg_credentials cfg = Some cr" and "mapbox cr = Some mb"
    and "accessToken mb = Some token" and "token \<noteq> []"
    and "cfg_maps cfg \<noteq> []"
    and "Store_Map st \<in> fst ` set (cfg_maps cfg) \<or> Store_Map st \<notin> set Object_prototype_members"
  shows "\<exists>s. constructor env cfg st = Inr s \<and>
             current s =
               (case map_of (cfg_maps cfg) (Store_Map st) of
                  Some m \<Rightarrow> Some (MapDefinition m)
                | None \<Rightarrow> Some (MapDefinition (snd (hd (cfg_maps cfg)))))"
proof -
  let ?sel = "case map_of (cfg_maps cfg) (Store_Map st) of
                Some m \<Rightarrow> MapDefinition m | None \<Rightarrow> MapDefinition (snd (hd (cfg_maps cfg)))"
  have sel: "current (constructor_fields cfg st) = Some ?sel"
    using current_selected[OF assms(5,6)] by (simp split: option.splits)
  have "constructor env cfg st = Inr (constructed env cfg st token ?sel)"
    by (rule constructor_ok[OF assms(1-4) sel])
  moreover have "current (constructed env cfg st token ?sel) = Some ?sel"
    by (simp add: constructed_def)
  ultimately show ?thesis
    by (auto split: option.splits)
qed

lemma startup_selection_examples:
  "(\<exists>s. constructor example_env example_cfg (example_store\<lparr>Store_Map := ''removed''\<rparr>) = Inr s
        \<and> current s = Some (MapDefinition map_a)) \<and>
   (\<exists>s. constructor example_env example_cfg (example_store\<lparr>Store_Map := ''b''\<rparr>) = Inr s
        \<and> current s = Some (MapDefinition map_b))"
proof -
  have n: "cfg_maps example_cfg \<noteq> []"
    by (simp add: example_cfg_def)
  have r: "Store_Map (example_store\<lparr>Store_Map := ''removed''\<rparr>) \<in> fst ` set (cfg_maps example_cfg) \<or>
           Store_Map (example_store\<lparr>Store_Map := ''removed''\<rparr>) \<notin> set Object_prototype_members"
    by (simp add: Object_prototype_members_def)
  have b: "Store_Map (example_store\<lparr>Store_Map := ''b''\<rparr>) \<in> fst ` set (cfg_maps example_cfg) \<or>
           Store_Map (example_store\<lparr>Store_Map := ''b''\<rparr>) \<notin> set Object_prototype_members"
    by (simp add: example_cfg_def)
  show ?thesis
    using startup_selection_apart_from_inherited_names[OF example_credentials n r, of example_env]
      startup_selection_apart_from_inherited_names[OF example_credentials n b, of example_env]
    by (simp add: example_cfg_def example_store_def)
qed

text \<open>
  C6. The persisted id \<^verbatim>\<open>constructor\<close> is not a key of the catalog, whose first entry is
  map a. The property read of line 21 finds the member of that name that every object
  inherits, line 24 sees a truthy value and takes no fallback: the constructor returns
  with \<^verbatim>\<open>this.current\<close> holding the inherited member instead of the first entry, the map
  is created with an undefined style and the table is requested from the base path
  followed by \<^verbatim>\<open>undefined\<close>.
\<close>

theorem startup_selects_inherited_member:
  "map_of (cfg_maps example_cfg) ''constructor'' = None \<and>
   FirstProperty (cfg_maps example_cfg) = Some map_a \<and>
   constructor example_env example_cfg (example_store\<lparr>Store_Map := ''constructor''\<rparr>) =
     Inr (constructed example_env example_cfg (example_store\<lparr>Store_Map := ''constructor''\<rparr>)
            ''pk.token'' (InheritedMember ''constructor'')) \<and>
   current (constructed example_env example_cfg (example_store\<lparr>Store_Map := ''constructor''\<rparr>)
              ''pk.token'' (InheritedMember ''constructor'')) \<noteq> Some (MapDefinition map_a) \<and>
   Factory_Map ''pk.token'' None (-75, 45) 4 \<in>
     set (calls (constructed example_env example_cfg (example_store\<lparr>Store_Map := ''constructor''\<rparr>)
                   ''pk.token'' (InheritedMember ''constructor''))) \<and>
   Net_JSON ''/undefined'' \<in>
     set (calls (constructed example_env example_cfg (example_store\<lparr>Store_Map := ''constructor''\<rparr>)
                   ''pk.token'' (InheritedMember ''constructor'')))"
proof -
  have sel: "current (constructor_fields example_cfg (example_store\<lparr>Store_Map := ''constructor''\<rparr>)) =
               Some (InheritedMember ''constructor'')"
    by (simp add: constructor_fields_def property_read_def example_cfg_def
        Object_prototype_members_def)
  have run: "constructor example_env example_cfg (example_store\<lparr>Store_Map := ''constructor''\<rparr>) =
     Inr (constructed example_env example_cfg (example_store\<lparr>Store_Map := ''constructor''\<rparr>)
            ''pk.token'' (InheritedMember ''constructor''))"
    by (rule constructor_ok[OF example_credentials sel])
  have rest: "map_of (cfg_maps example_cfg) ''constructor'' = None"
    "FirstProperty (cfg_maps example_cfg) = Some map_a"
    by (simp_all add: example_cfg_def FirstProperty_def)
  show ?thesis
    using run rest
    by (simp add: constructed_def getter_def template_text_def example_env_def example_store_def)
qed

section \<open>Pan, zoom and click\<close>

text \<open>
  C9. With a live map, the pan handler writes the map centre's latitude and longitude
  to the store and the zoom handler writes the zoom level; each leaves every other
  field of the application and every other key of the store as it was, and makes no
  call besides the store writes, so no styling is applied.
\<close>

theorem pan_zoom_persist_only_view:
  assumes "map_of_app s = Some m"
  shows "OnMapMoveEnd_Handler s =
           Inr (s\<lparr>Store := (Store s)\<lparr>Store_Lat := Center_lat m, Store_Lng := Center_lng m\<rparr>,
                  calls := calls s @ [Store_set ''Lat'' (JNum (Center_lat m)),
                                      Store_set ''Lng'' (JNum (Center_lng m))]\<rparr>) \<and>
         OnMapZoomEnd_Handler s =
           Inr (s\<lparr>Store := (Store s)\<lparr>Store_Zoom := Zoom m\<rparr>,
                  calls := calls s @ [Store_set ''Zoom'' (JNum (Zoom m))]\<rparr>)"
  using assms by (simp add: OnMapMoveEnd_Handler_def OnMapZoomEnd_Handler_def emit_def)

theorem pan_zoom_persist_only_view_witness:
  "OnMapMoveEnd_Handler (example_app\<lparr>map_of_app := Some \<lparr>Center_lat = 46, Center_lng = -71, Zoom = 9\<rparr>\<rparr>) =
     Inr (example_app\<lparr>map_of_app := Some \<lparr>Center_lat = 46, Center_lng = -71, Zoom = 9\<rparr>,
            Store := \<lparr>Store_Map = ''a'', Store_Lat = 46, Store_Lng = -71, Store_Zoom = 4,
                      Store_Opacity = 3 / 4\<rparr>,
            calls := calls example_app @ [Store_set ''Lat'' (JNum 46), Store_set ''Lng'' (JNum (-71))]\<rparr>) \<and>
   OnMapZoomEnd_Handler (example_app\<lparr>map_of_app := Some \<lparr>Center_lat = 46, Center_lng = -71, Zoom = 9\<rparr>\<rparr>) =
     Inr (example_app\<lparr>map_of_app := Some \<lparr>Center_lat = 46, Center_lng = -71, Zoom = 9\<rparr>,
            Store := \<lparr>Store_Map = ''a'', Store_Lat = 45, Store_Lng = -75, Store_Zoom = 9,
                      Store_Opacity = 3 / 4\<rparr>,
            calls := calls example_app @ [Store_set ''Zoom'' (JNum 9)]\<rparr>)"
proof -
  have m: "map_of_app (example_app\<lparr>map_of_app := Some \<lparr>Center_lat = 46, Center_lng = -71, Zoom = 9\<rparr>\<rparr>)
             = Some \<lparr>Center_lat = 46, Center_lng = -71, Zoom = 9\<rparr>"
    by simp
  have st: "Store example_app = example_store"
    by (simp add: example_app_def constructed_def)
  show ?thesis
    using pan_zoom_persist_only_view[OF m] by (simp add: st example_store_def)
qed

text \<open>
  C7. With a live map and a current map definition, a click queries the rendered
  features at the click point on the current map's clickable layers. When the query
  returns no feature, that query is the only call made and nothing else changes. When it
  returns \<open>f # fs\<close>, the handler takes \<open>f\<close>, the first, whatever \<open>fs\<close> is, passes each of its
  property values through \<^verbatim>\<open>FixField\<close>, formats the result against the current map's
  fields with the "not available" text, and asks for a popup at the click's \<^verbatim>\<open>lngLat\<close>.
\<close>

theorem click_takes_topmost_feature:
  assumes "map_of_app s = Some m" and "current s = Some (MapDefinition c)"
  shows "(Rendered env (ce_point ev) (Some (ClickableLayersIDs c)) = [] \<longrightarrow>
            OnMapClick_Handler env ev s =
              Inr (s\<lparr>calls := calls s @
                     [QueryRenderedFeatures (ce_point ev) (Some (ClickableLayersIDs c))]\<rparr>)) \<and>
         (\<forall>f fs. Rendered env (ce_point ev) (Some (ClickableLayersIDs c)) = f # fs \<longrightarrow>
            OnMapClick_Handler env ev s =
              Inr (s\<lparr>calls := calls s @
                     [QueryRenderedFeatures (ce_point ev) (Some (ClickableLayersIDs c)),
                      InfoPopup (ce_lngLat ev)
                        (HTMLize env (map (\<lambda>(fld, v). (fld, FixField env fld v)) (properties f))
                           (Some (Fields c)) (Nls env ''Map_Not_Available''))]\<rparr>))"
  using assms by (simp add: OnMapClick_Handler_def emit_def Let_def fix_fields_map getter_def)

theorem click_takes_topmost_feature_witness:
  "OnMapClick_Handler example_env \<lparr>ce_point = (0, 0), ce_lngLat = (-75, 45)\<rparr> example_app =
     Inr (example_app\<lparr>calls := calls example_app @
            [QueryRenderedFeatures (0, 0) (Some [''odhf-points''])]\<rparr>) \<and>
   OnMapClick_Handler example_env \<lparr>ce_point = (1, 1), ce_lngLat = (-75, 45)\<rparr> example_app =
     Inr (example_app\<lparr>calls := calls example_app @
            [QueryRenderedFeatures (1, 1) (Some [''odhf-points'']),
             InfoPopup (-75, 45) ''CSDUIDName'']\<rparr>)"
  using click_takes_topmost_feature[OF example_app_fields, of example_env
      "\<lparr>ce_point = (0, 0), ce_lngLat = (-75, 45)\<rparr>"]
    click_takes_topmost_feature[OF example_app_fields, of example_env
      "\<lparr>ce_point = (1, 1), ce_lngLat = (-75, 45)\<rparr>"]
  by (simp add: example_env_def map_a_def)

section \<open>Search items\<close>

text \<open>
  C10. A raw row \<open>[i, n, minLng, minLat, maxLng, maxLat]\<close> becomes the item with id \<open>i\<close>,
  name \<open>n\<close>, label "n (i)" (for string name and id, the name, a space, and the id in
  parentheses) and extent \<open>[[minLng, minLat], [maxLng, maxLat]]\<close>. \<^verbatim>\<open>AddSearch\<close> stores the
  derived items in the configuration and creates the search control from them, the
  derivation first. After a construction that returns, the stored items are the rows
  derived exactly once and a single search control has been created, from those items.
\<close>

theorem search_items_derived_once:
  "make_item env (Row [i, n, minLng, minLat, maxLng, maxLat]) =
     Item \<lparr>item_id = i, item_name = n,
           item_label = ToString env n @ '' ('' @ ToString env i @ '')'',
           item_extent = ((minLng, minLat), (maxLng, maxLat))\<rparr> \<and>
   ToString env (JStr name) @ '' ('' @ ToString env (JStr ident) @ '')'' = name @ '' ('' @ ident @ '')'' \<and>
   AddSearch env s =
     Inr (s\<lparr>app_config := (app_config s)\<lparr>cfg_search := (cfg_search (app_config s))
               \<lparr>search_items := map (make_item env) (search_items (cfg_search (app_config s)))\<rparr>\<rparr>,
            calls := calls s @
              [Factory_SearchControl (map (make_item env) (search_items (cfg_search (app_config s))))
                 (Nls env ''Search_Placeholder'') (Nls env ''Search_Title''),
               Search_Place ''search'', Search_On ''Change'', Search_input_id ''lode-search'']\<rparr>) \<and>
   (constructor env cfg st = Inr s' \<longrightarrow>
      search_items (cfg_search (app_config s')) = map (make_item env) (search_items (cfg_search cfg)) \<and>
      filter is_SearchControl (calls s') =
        [Factory_SearchControl (map (make_item env) (search_items (cfg_search cfg)))
           (Nls env ''Search_Placeholder'') (Nls env ''Search_Title'')])"
proof -
  have "search_items (cfg_search (app_config s')) = map (make_item env) (search_items (cfg_search cfg)) \<and>
      filter is_SearchControl (calls s') =
        [Factory_SearchControl (map (make_item env) (search_items (cfg_search cfg)))
           (Nls env ''Search_Placeholder'') (Nls env ''Search_Title'')]"
    if "constructor env cfg st = Inr s'"
    using constructor_returns[OF that] by (auto simp: constructed_def is_SearchControl_def)
  then show ?thesis
    by (simp add: make_item_def js_index_def AddSearch_def emits_eq Let_def)
qed

theorem search_items_derived_once_witness:
  "constructor example_env example_cfg example_store = Inr example_app \<and>
   search_items (cfg_search (app_config example_app)) =
     [Item \<lparr>item_id = JStr ''2410'', item_name = JStr ''Sample'', item_label = ''Sample (2410)'',
            item_extent = ((JNum (-74), JNum 45), (JNum (-73), JNum 46))\<rparr>] \<and>
   filter is_SearchControl (calls example_app) =
     [Factory_SearchControl
        [Item \<lparr>item_id = JStr ''2410'', item_name = JStr ''Sample'', item_label = ''Sample (2410)'',
               item_extent = ((JNum (-74), JNum 45), (JNum (-73), JNum 46))\<rparr>]
        ''Search_Placeholder'' ''Search_Title'']"
  using search_items_derived_once[of example_env "JStr ''2410''" "JStr ''Sample''" "JNum (-74)" "JNum 45"
      "JNum (-73)" "JNum 46" "''Sample''" "''2410''" example_app example_cfg example_store example_app]
    example_constructor
  by (simp add: example_cfg_def example_env_def)

section \<open>A missing access token\<close>

text \<open>
  C8. Without credentials in the configuration, \<^verbatim>\<open>AddMap\<close> catches the thrown message,
  logs it and returns, leaving \<^verbatim>\<open>this.map\<close> undefined. The constructor goes on to
  \<^verbatim>\<open>AddSearch\<close> and then to \<^verbatim>\<open>AddBaseControls\<close>, whose first statement calls a method on
  the undefined map: the constructor throws a \<^verbatim>\<open>TypeError\<close>.
\<close>

theorem constructor_throws_without_token:
  "AddMap example_env (constructor_fields (example_cfg\<lparr>cfg_credentials := None\<rparr>) example_store) =
     Inr ((constructor_fields (example_cfg\<lparr>cfg_credentials := None\<rparr>) example_store)
            \<lparr>calls := [Console_error (Thrown token_message)]\<rparr>) \<and>
   constructor example_env (example_cfg\<lparr>cfg_credentials := None\<rparr>) example_store =
     Inl (TypeError,
          (constructor_fields (example_cfg\<lparr>cfg_credentials := None\<rparr>) example_store)
            \<lparr>app_config := example_cfg\<lparr>cfg_credentials := None,
                cfg_search := (cfg_search example_cfg)\<lparr>search_items := [Item example_item]\<rparr>\<rparr>,
              calls := [Console_error (Thrown token_message),
                        Factory_SearchControl [Item example_item] ''Search_Placeholder'' ''Search_Title'',
                        Search_Place ''search'', Search_On ''Change'', Search_input_id ''lode-search'']\<rparr>)"
  by (simp add: constructor_def AddMap_def AddMap_try_def AddSearch_def AddBaseControls_def map_call_def
      emits_eq emit_def constructor_fields_def Let_def example_cfg_def example_env_def example_item_def
      make_item_def js_index_def)

section \<open>Style-ready\<close>

text \<open>
  C2, as the claim states it, fails: layer \<^verbatim>\<open>csd-search\<close> of map a names the source
  \<^verbatim>\<open>composite\<close>, no data source of map a has that name, and the layer is attached all the
  same.
\<close>

theorem layer_without_added_source_attached:
  "\<lparr>layer_id = ''csd-search'', layer_source = Some ''composite''\<rparr> \<in> set (layer_list map_a) \<and>
   AddLayer \<lparr>layer_id = ''csd-search'', layer_source = Some ''composite''\<rparr>
     \<in> set (emitted example_app (OnMapStyleChanged_Handler example_app)) \<and>
   \<not> resolves_to_added_source map_a \<lparr>layer_id = ''csd-search'', layer_source = Some ''composite''\<rparr>"
  by (simp add: style_changed_live[OF example_app_fields example_app_group] emitted_def reached_def
      layer_list_def source_list_def map_a_def truthy_def resolves_to_added_source_def)

text \<open>
  C2, amended. On style-ready, with a live map, every layer of the current map's layer
  list is attached if and only if its \<^verbatim>\<open>source\<close> property is set to a non-empty name,
  whether or not a data source of that name was added; in particular every layer whose
  source name resolves to an added data source is attached.
\<close>

theorem layers_attached_iff_source_set:
  assumes "map_of_app s = Some m" and "current s = Some (MapDefinition c)"
    and "group_of_app s = Some g" and "Layers c = Some ls"
  shows "\<exists>s'. OnMapStyleChanged_Handler s = Inr s' \<and>
           (\<forall>l \<in> set ls.
              (AddLayer l \<in> set (emitted s (Inr s')) \<longleftrightarrow> truthy (layer_source l)) \<and>
              (resolves_to_added_source c l \<longrightarrow> AddLayer l \<in> set (emitted s (Inr s'))))"
proof -
  let ?s' = "s\<lparr>calls := calls s @ [SetClickableMap] @ source_calls (source_list c) @
                   map AddLayer (filter (\<lambda>l. truthy (layer_source l)) (layer_list c)) @
                   [ApplyLegendStylesToMapLayers (Some (LayerIDs c)) (LegendControl (legend g)),
                    UpdateMapLayersWithLegendState (Some (LayerIDs c)) (legend g)
                      (Store_Opacity (Store s))]\<rparr>"
  have r: "OnMapStyleChanged_Handler s = Inr ?s'"
    by (rule style_changed_live[OF assms(1-3)])
  have e: "set (emitted s (Inr ?s')) =
        {SetClickableMap} \<union> set (source_calls (source_list c)) \<union>
        AddLayer ` {l \<in> set ls. truthy (layer_source l)} \<union>
        {ApplyLegendStylesToMapLayers (Some (LayerIDs c)) (LegendControl (legend g)),
         UpdateMapLayersWithLegendState (Some (LayerIDs c)) (legend g) (Store_Opacity (Store s))}"
    using assms(4) by (auto simp: emitted_def reached_def layer_list_def)
  have "AddLayer l \<in> set (emitted s (Inr ?s')) \<longleftrightarrow> l \<in> set ls \<and> truthy (layer_source l)" for l
    unfolding e using AddLayer_notin_source_calls[of l "source_list c"] by auto
  then show ?thesis
    using r resolves_truthy by blast
qed

theorem layers_attached_iff_source_set_witness:
  "\<exists>s'. OnMapStyleChanged_Handler example_app = Inr s' \<and>
      AddLayer \<lparr>layer_id = ''odhf-points'', layer_source = Some ''odhf''\<rparr> \<in> set (emitted example_app (Inr s')) \<and>
      AddLayer \<lparr>layer_id = ''csd-search'', layer_source = Some ''composite''\<rparr> \<in> set (emitted example_app (Inr s')) \<and>
      AddLayer \<lparr>layer_id = ''draft'', layer_source = None\<rparr> \<notin> set (emitted example_app (Inr s')) \<and>
      resolves_to_added_source map_a \<lparr>layer_id = ''odhf-points'', layer_source = Some ''odhf''\<rparr>"
  using layers_attached_iff_source_set[OF example_app_fields example_app_group example_layers]
  by (auto simp: truthy_def resolves_to_added_source_def map_a_def)

section \<open>Map selection\<close>

text \<open>
  C3. When the maps popup button exists, the map is live, the legend group exists and
  the event carries the catalog entry \<open>ms_map ev\<close> for its id \<open>ms_id ev\<close>, the handler
  returns and has done exactly this, in this order: hidden the maps popup, written the
  id to \<^verbatim>\<open>Store.Map\<close>, made the catalog entry the current map, switched the map to the
  entry's style, emptied the table node and requested the entry's table URL, and
  reloaded the legend from the entry's legend, title and subtitle.
\<close>

theorem map_selection_effects_in_order:
  assumes "menu s = Some buttons" and "PopupButton ''maps'' \<in> set buttons"
    and "map_of_app s = Some m" and "group_of_app s = Some g"
    and "map_of (cfg_maps (app_config s)) (ms_id ev) = Some (ms_map ev)"
  shows "OnMapSelected_Handler env ev s =
           Inr (s\<lparr>Store := (Store s)\<lparr>Store_Map := ms_id ev\<rparr>,
                  current := map_option MapDefinition (map_of (cfg_maps (app_config s)) (ms_id ev)),
                  group_of_app := Some (g\<lparr>legend :=
                     \<lparr>lc_legend = Some (Legend (ms_map ev)), lc_title = Some (FullTitle (ms_map ev)),
                      lc_subtitle = Some (Subtitle (ms_map ev)),
                      lc_state = Legend_reloaded_state env (legend g) (Some (Legend (ms_map ev)))\<rparr>\<rparr>),
                  calls := calls s @
                    [Popup_Hide ''maps'',
                     Store_set ''Map'' (JStr (ms_id ev)),
                     SetStyle (Some (Style (ms_map ev))),
                     Dom_Empty ''table'',
                     Net_JSON (Core_root env @ TableUrl (ms_map ev)),
                     Legend_Reload (Some (Legend (ms_map ev))) (Some (FullTitle (ms_map ev)))
                       (Some (Subtitle (ms_map ev)))]\<rparr>)"
  using assms
  by (simp add: OnMapSelected_Handler_def popup_Hide_def emit_def set_style_def ReloadTable_def
      legend_Reload_def Let_def getter_def template_text_def)

theorem map_selection_effects_in_order_witness:
  "OnMapSelected_Handler example_env \<lparr>ms_id = ''b'', ms_map = map_b\<rparr> example_app =
     Inr (example_app\<lparr>Store := example_store\<lparr>Store_Map := ''b''\<rparr>,
            current := Some (MapDefinition map_b),
            group_of_app := Some \<lparr>legend = \<lparr>lc_legend = Some (Legend map_b), lc_title = Some ''Map B'',
                                           lc_subtitle = Some ''second'', lc_state = [True]\<rparr>,
                                 opacity = \<lparr>oc_opacity = 3 / 4, oc_title = ''Toc_Opacity_Title'',
                                            oc_label = ''Toc_Opacity_Label''\<rparr>\<rparr>,
            calls := calls example_app @
              [Popup_Hide ''maps'', Store_set ''Map'' (JStr ''b''), SetStyle (Some ''mapbox://styles/b''),
               Dom_Empty ''table'', Net_JSON ''/data/b.json'',
               Legend_Reload (Some (Legend map_b)) (Some ''Map B'') (Some ''second'')]\<rparr>)"
proof -
  have p: "PopupButton ''maps'' \<in>
             set [Button ''home'', PopupButton ''maps'', PopupButton ''bookmarks'', Button ''help'']"
    by simp
  have v: "map_of (cfg_maps (app_config example_app)) (ms_id \<lparr>ms_id = ''b'', ms_map = map_b\<rparr>)
             = Some (ms_map \<lparr>ms_id = ''b'', ms_map = map_b\<rparr>)"
    by (simp add: example_app_def constructed_def example_cfg_def)
  show ?thesis
    using map_selection_effects_in_order[OF example_app_menu p example_app_fields(1)
        example_app_group v, of example_env]
    by (simp add: example_app_store example_env_def map_b_def example_app_def constructed_def
        example_cfg_def)
qed

section \<open>Table fetches and generations\<close>

text \<open>
  C1, as the claim states it, fails: construction requests the table of map a in
  generation 0; after the switch from map a to map b the generation is 1 and no table
  exists yet; the response to the request of generation 0 then arrives, the table is
  built from it and map b is handed the rows of map a.
\<close>

theorem stale_completion_updates_table:
  "Net_JSON ''/data/a.json'' \<in> set (calls example_app) \<and>
   0 < tr_generation example_switched \<and>
   table (tr_app example_switched) = None \<and>
   table (reached (fetch_completes 0 [[JStr ''row of map a'']] example_switched)) =
     Some (Table (Some [[JStr ''row of map a'']])) \<and>
   current (reached (fetch_completes 0 [[JStr ''row of map a'']] example_switched)) =
     Some (MapDefinition (map_b\<lparr>TableData := Some [[JStr ''row of map a'']]\<rparr>))"
proof -
  have "Net_JSON ''/data/a.json'' \<in> set (calls example_app)"
    by (simp add: example_app_def constructed_def example_env_def map_a_def getter_def
        template_text_def)
  then show ?thesis
    by (simp add: example_switched_fields fetch_completes_def ReloadTable_then_def emit_def Let_def
        reached_def)
qed

text \<open>
  C1, amended. The application keeps no generation counter and discards no completion:
  whatever generation \<open>g\<close> its fetch was issued in, a completing table fetch hands its
  response to the map that is current when it arrives and replaces the table with one
  built from that response. In particular the fetch of the current generation does so.
\<close>

theorem completion_updates_table_whatever_generation:
  assumes "current (tr_app t) = Some (MapDefinition c)"
  shows "fetch_completes g r t =
           Inr ((tr_app t)\<lparr>current := Some (MapDefinition (c\<lparr>TableData := Some r\<rparr>)),
                           table := Some (Table (Some r)),
                           calls := calls (tr_app t) @
                             [Map_UpdateTable r, New_Table (Some r),
                              Message_setAttribute ''href'' ''#lode-search'']\<rparr>)"
  using assms by (simp add: fetch_completes_def ReloadTable_then_def emit_def Let_def)

theorem completion_updates_table_whatever_generation_witness:
  "table (reached (fetch_completes 0 [[JStr ''row of map a'']] example_switched)) =
     Some (Table (Some [[JStr ''row of map a'']])) \<and>
   table (reached (fetch_completes 1 [[JStr ''row of map b'']] example_switched)) =
     Some (Table (Some [[JStr ''row of map b'']]))"
  using completion_updates_table_whatever_generation[OF example_switched_fields(2), of 0
      "[[JStr ''row of map a'']]"]
    completion_updates_table_whatever_generation[OF example_switched_fields(2), of 1
      "[[JStr ''row of map b'']]"]
  by (simp add: reached_def)

section \<open>Legend and opacity\<close>

lemma update_layers_live:
  "map_of_app s = Some m \<Longrightarrow> current s = Some v \<Longrightarrow> group_of_app s = Some g \<Longrightarrow>
   update_layers s =
     Inr (s\<lparr>calls := calls s @
            [UpdateMapLayersWithLegendState (getter LayerIDs v) (legend g)
               (Store_Opacity (Store s))]\<rparr>)"
  by (simp add: update_layers_def emit_def)

text \<open>
  C5. With a live map, a current map and the legend group in place, and for any
  computation \<open>directive\<close> of the directive from legend and opacity: the legend handler
  applies the directive of the legend control's state and the stored opacity to the
  current map's layers, and running it again applies the same directive; an opacity
  change to \<open>v\<close>, then a legend change to \<open>lg\<close>, then the same opacity change again ends
  with the directive of \<open>lg\<close> and \<open>v\<close> applied, the same as one legend change to \<open>lg\<close> with
  opacity \<open>v\<close> stored.
\<close>

theorem directive_idempotent_and_commutes:
  assumes "map_of_app s = Some m" and "current s = Some (MapDefinition c)"
    and "group_of_app s = Some g"
  shows "final_directive directive (OnLegend_Changed s) =
           Some (Some (LayerIDs c), directive (legend g) (Store_Opacity (Store s))) \<and>
         final_directive directive (OnLegend_Changed (reached (OnLegend_Changed s))) =
           final_directive directive (OnLegend_Changed s) \<and>
         final_directive directive
           (run_steps [OnOpacitySlider_Changed v, raise_LegendChange lg, OnOpacitySlider_Changed v] s) =
           Some (Some (LayerIDs c), directive lg v) \<and>
         final_directive directive
           (run_steps [OnOpacitySlider_Changed v, raise_LegendChange lg, OnOpacitySlider_Changed v] s) =
           final_directive directive
             (raise_LegendChange lg (s\<lparr>Store := (Store s)\<lparr>Store_Opacity := v\<rparr>\<rparr>))"
  using assms
  by (simp add: OnLegend_Changed_def raise_LegendChange_def OnOpacitySlider_Changed_def
      update_layers_def emit_def final_directive_def applied_directive_def reached_def getter_def)

theorem directive_idempotent_and_commutes_witness:
  "final_directive (\<lambda>lg op. (lc_state lg, op)) (OnLegend_Changed example_app) =
     Some (Some [''odhf-points''], ([True, True], 3 / 4)) \<and>
   final_directive (\<lambda>lg op. (lc_state lg, op))
       (OnLegend_Changed (reached (OnLegend_Changed example_app))) =
     Some (Some [''odhf-points''], ([True, True], 3 / 4)) \<and>
   final_directive (\<lambda>lg op. (lc_state lg, op))
       (run_steps [OnOpacitySlider_Changed (1 / 2),
                   raise_LegendChange \<lparr>lc_legend = Some (Legend map_a), lc_title = Some ''Map A'',
                                       lc_subtitle = Some ''first'', lc_state = [False, True]\<rparr>,
                   OnOpacitySlider_Changed (1 / 2)] example_app) =
     Some (Some [''odhf-points''], ([False, True], 1 / 2)) \<and>
   final_directive (\<lambda>lg op. (lc_state lg, op))
       (raise_LegendChange \<lparr>lc_legend = Some (Legend map_a), lc_title = Some ''Map A'',
                             lc_subtitle = Some ''first'', lc_state = [False, True]\<rparr>
          (example_app\<lparr>Store := (Store example_app)\<lparr>Store_Opacity := 1 / 2\<rparr>\<rparr>)) =
     Some (Some [''odhf-points''], ([False, True], 1 / 2))"
  using directive_idempotent_and_commutes[OF example_app_fields example_app_group,
      of "\<lambda>lg op. (lc_state lg, op)" "1 / 2"
         "\<lparr>lc_legend = Some (Legend map_a), lc_title = Some ''Map A'', lc_subtitle = Some ''first'',
           lc_state = [False, True]\<rparr>"]
  by (elim conjE) (simp add: example_app_store example_store_def example_layer_ids del: run_steps.simps)

section \<open>Search selection\<close>

text \<open>
  With a table in place and a live map, a search selection focuses the table on the
  item, applies the two-rule legend (the search field equal to the item's id in the
  search colour, then a transparent fallback) to the one configured search layer, and
  fits the map to the item's extent with padding 30 and no animation.
\<close>

lemma search_selection_with_table:
  assumes "table s = Some t" and "map_of_app s = Some m"
  shows "OnSearchChange_Handler ev_item s =
           Inr (s\<lparr>calls := calls s @
                  [Table_UpdateTable ev_item,
                   ApplyLegendStylesToMapLayers (Some [search_layer (cfg_search (app_config s))])
                     (LegendLiteral
                        [\<lparr>li_color = search_color (cfg_search (app_config s)),
                          li_value = Some (Arr [Lit (JStr ''==''),
                                               Arr [Lit (JStr ''get''),
                                                    Lit (JStr (search_field (cfg_search (app_config s))))],
                                               Lit (item_id ev_item)])\<rparr>,
                         \<lparr>li_color = [255, 255, 255, 0], li_value = None\<rparr>]),
                   FitBounds (item_extent ev_item)
                     (Some \<lparr>fo_padding = Some 30, fo_animate = Some False\<rparr>)]\<rparr>)"
  using assms
  by (simp add: OnSearchChange_Handler_def map_call_live emit_def search_legend_def)

lemma search_selection_example:
  "OnSearchChange_Handler example_item example_loaded =
     Inr (example_loaded\<lparr>calls := calls example_loaded @
            [Table_UpdateTable example_item,
             ApplyLegendStylesToMapLayers (Some [''csd-search''])
               (LegendLiteral
                  [\<lparr>li_color = [255, 255, 0, 1],
                    li_value = Some (Arr [Lit (JStr ''==''),
                                         Arr [Lit (JStr ''get''), Lit (JStr ''CSDUID'')],
                                         Lit (JStr ''2410'')])\<rparr>,
                   \<lparr>li_color = [255, 255, 255, 0], li_value = None\<rparr>]),
             FitBounds ((JNum (-74), JNum 45), (JNum (-73), JNum 46))
               (Some \<lparr>fo_padding = Some 30, fo_animate = Some False\<rparr>)]\<rparr>)"
proof -
  have t: "table example_loaded = Some (Table (Some [[JStr ''2410'', JStr ''Sample'']]))"
    by (simp add: example_loaded_def)
  have m: "map_of_app example_loaded = Some \<lparr>Center_lat = 45, Center_lng = -75, Zoom = 4\<rparr>"
    by (simp add: example_loaded_def example_app_fields)
  show ?thesis
    using search_selection_with_table[OF t m, of example_item]
    by (simp add: example_loaded_def example_app_def constructed_def example_cfg_def example_item_def)
qed

text \<open>
  C4. The table exists only once a table fetch has completed. In the state the
  constructor returns, with the first fetch still outstanding, a search selection throws
  a \<^verbatim>\<open>TypeError\<close> at \<^verbatim>\<open>this.table.UpdateTable\<close>: the table is not focused, no layer is
  restyled and the map is not fitted.
\<close>

theorem search_before_table_loaded_throws:
  "constructor example_env example_cfg example_store = Inr example_app \<and>
   OnSearchChange_Handler example_item example_app = Inl (TypeError, example_app)"
  by (simp add: example_constructor OnSearchChange_Handler_def example_app_def constructed_def)

end
